theory Spec2Isabelle
  imports Main
begin

section \<open>The API client of \<^verbatim>\<open>apps/frontend/lib/api.ts\<close>\<close>

text \<open>
  The module exports five wrappers (\<^verbatim>\<open>get\<close>, \<^verbatim>\<open>post\<close>, \<^verbatim>\<open>put\<close>, \<^verbatim>\<open>patch\<close>, \<^verbatim>\<open>del\<close>)
  around one asynchronous function \<^verbatim>\<open>apiRequest\<close>, and the error class \<^verbatim>\<open>ApiError\<close>.
  A call builds a \<^verbatim>\<open>RequestInit\<close>, hands it to the platform's \<^verbatim>\<open>fetch\<close> once, and settles
  either with the decoded body or by throwing. The model below follows the source
  statement by statement; what the JavaScript platform contributes (number printing,
  \<^verbatim>\<open>JSON.stringify\<close>, \<^verbatim>\<open>fetch\<close>, the environment variable, the wording of a
  \<^verbatim>\<open>TypeError\<close>) is a parameter, collected in one record.
\<close>

subsection \<open>JavaScript values\<close>

text \<open>
  The values \<^verbatim>\<open>JSON.parse\<close> can produce. The type \<open>'n\<close> stands for the platform's
  numbers (IEEE doubles). An object is the list of its own properties; the keys of a
  decoded object are distinct (\<^verbatim>\<open>JSON.parse\<close> keeps one value per key).
\<close>

datatype 'n json =
    JNull
  | JBool bool
  | JNum 'n
  | JStr string
  | JArr "'n json list"
  | JObj "(string \<times> 'n json) list"

text \<open>
  A value thrown by the platform: an instance of \<^verbatim>\<open>Error\<close> (a \<^verbatim>\<open>TypeError\<close> of
  \<^verbatim>\<open>fetch\<close>, a \<^verbatim>\<open>SyntaxError\<close> of \<^verbatim>\<open>response.json()\<close>, a \<^verbatim>\<open>DOMException\<close>) with its
  \<^verbatim>\<open>message\<close>, or any value that is not an instance of \<^verbatim>\<open>Error\<close>. The platform never
  throws an \<^verbatim>\<open>ApiError\<close>: that class belongs to this module.
\<close>

datatype js_error =
    ErrorObject string
  | NonError

text \<open>
  \<^verbatim>\<open>class ApiError extends Error\<close> with \<^verbatim>\<open>message\<close>, \<^verbatim>\<open>public status: number\<close> and
  \<^verbatim>\<open>public data?: unknown\<close>; \<open>None\<close> is \<^verbatim>\<open>undefined\<close>. The field \<^verbatim>\<open>name\<close> is the constant
  \<^verbatim>\<open>"ApiError"\<close> and is left out.
\<close>

datatype 'n ApiError = ApiError (message: string) (status: nat) (data: "'n json option")

text \<open>What a \<^verbatim>\<open>throw\<close> inside the module can carry.\<close>

datatype 'n thrown =
    ThrownApiError "'n ApiError"
  | ThrownOther js_error

text \<open>
  A \<^verbatim>\<open>Response\<close> as the client reads it: its \<^verbatim>\<open>status\<close> and what \<^verbatim>\<open>response.json()\<close>
  settles with (the decoded body, or the error it rejects with when the body is not
  JSON). \<^verbatim>\<open>response.ok\<close> is defined by the Fetch standard from the status.
\<close>

datatype 'n Response = Response (status: nat) (json: "js_error + 'n json")

definition ok :: "'n Response \<Rightarrow> bool" where
  "ok response = (200 \<le> Response.status response \<and> Response.status response \<le> 299)"

datatype 'n fetch_result =
    Rejected js_error
  | Fulfilled "'n Response"

subsection \<open>Request options\<close>

text \<open>
  \<^verbatim>\<open>HeadersInit\<close> is a \<^verbatim>\<open>Headers\<close> instance, an array of name/value pairs, or a plain
  record. A property of a plain object holds a string or, after an array was spread
  into it, an array of strings.
\<close>

datatype header_value =
    HString string
  | HArray "string list"

datatype HeadersInit =
    HeadersInstance "(string \<times> string) list"
  | HeadersPairs "(string \<times> string) list"
  | HeadersRecord "string \<rightharpoonup> header_value"

text \<open>
  The fields of \<^verbatim>\<open>RequestInit\<close> the module reads or writes; \<open>None\<close> is an absent (or
  \<^verbatim>\<open>undefined\<close>) property. The further fields (\<^verbatim>\<open>mode\<close>, \<^verbatim>\<open>credentials\<close>, \<^verbatim>\<open>signal\<close>, ...)
  are copied unchanged by every spread and are not modelled.
\<close>

record RequestInit =
  "method" :: "string option"
  headers :: "HeadersInit option"
  body :: "string option"

subsection \<open>The platform\<close>

record 'n platform =
  NEXT_PUBLIC_API_URL :: "string option"
  number_is_falsy :: "'n \<Rightarrow> bool"
  number_to_string :: "'n \<Rightarrow> string"
  JSON_stringify :: "'n json \<Rightarrow> string"
  null_property_message :: string
  to_primitive_message :: string
  fetch :: "string \<Rightarrow> RequestInit \<Rightarrow> 'n fetch_result"

text \<open>Decimal digits of a natural number, as a template literal prints a status.\<close>

fun digit_char :: "nat \<Rightarrow> char" where
  "digit_char n = ''0123456789'' ! n"

fun decimal :: "nat \<Rightarrow> string" where
  "decimal n = (if n < 10 then [digit_char n] else decimal (n div 10) @ [digit_char (n mod 10)])"

declare decimal.simps [simp del]

text \<open>\<^verbatim>\<open>ToBoolean\<close>: \<^verbatim>\<open>null\<close>, \<^verbatim>\<open>false\<close>, \<^verbatim>\<open>0\<close>, \<^verbatim>\<open>NaN\<close> and \<^verbatim>\<open>""\<close> are falsy.\<close>

fun ToBoolean :: "'n platform \<Rightarrow> 'n json \<Rightarrow> bool" where
  "ToBoolean P JNull = False"
| "ToBoolean P (JBool b) = b"
| "ToBoolean P (JNum n) = (\<not> number_is_falsy P n)"
| "ToBoolean P (JStr s) = (s \<noteq> [])"
| "ToBoolean P (JArr xs) = True"
| "ToBoolean P (JObj kvs) = True"

text \<open>The first error of a list of results, or all the values.\<close>

fun sequence :: "('e + 'a) list \<Rightarrow> 'e + 'a list" where
  "sequence [] = Inr []"
| "sequence (Inl e # rs) = Inl e"
| "sequence (Inr x # rs) = (case sequence rs of Inl e \<Rightarrow> Inl e | Inr xs \<Rightarrow> Inr (x # xs))"

text \<open>\<^verbatim>\<open>Array.prototype.join\<close> with its default separator.\<close>

fun join :: "string list \<Rightarrow> string" where
  "join [] = []"
| "join [s] = s"
| "join (s # t # ss) = s @ '','' @ join (t # ss)"

text \<open>
  \<^verbatim>\<open>ToString\<close>, which the \<^verbatim>\<open>Error\<close> constructor applies to its message. An array joins
  its elements (\<^verbatim>\<open>null\<close> prints empty). A plain object prints \<^verbatim>\<open>[object Object]\<close> through
  \<^verbatim>\<open>Object.prototype.toString\<close>, unless it has an own property \<^verbatim>\<open>toString\<close>: a decoded
  value is never callable, \<^verbatim>\<open>valueOf\<close> returns no primitive, and the conversion throws
  a \<^verbatim>\<open>TypeError\<close>.
\<close>

fun ToString :: "'n platform \<Rightarrow> 'n json \<Rightarrow> js_error + string" where
  "ToString P JNull = Inr ''null''"
| "ToString P (JBool b) = Inr (if b then ''true'' else ''false'')"
| "ToString P (JNum n) = Inr (number_to_string P n)"
| "ToString P (JStr s) = Inr s"
| "ToString P (JArr xs) =
     (case sequence (map (\<lambda>x. case x of JNull \<Rightarrow> Inr [] | _ \<Rightarrow> ToString P x) xs) of
        Inl e \<Rightarrow> Inl e
      | Inr ss \<Rightarrow> Inr (join ss))"
| "ToString P (JObj kvs) =
     (if ''toString'' \<in> fst ` set kvs then Inl (ErrorObject (to_primitive_message P))
      else Inr ''[object Object]'')"

text \<open>
  The property read \<^verbatim>\<open>errorData.detail\<close>. On an object it is the own property (no
  prototype of a decoded value has a \<^verbatim>\<open>detail\<close>); on a boolean, number, string or array
  it is \<^verbatim>\<open>undefined\<close> (\<open>None\<close>); on \<^verbatim>\<open>null\<close> the read throws a \<^verbatim>\<open>TypeError\<close>.
\<close>

fun own_detail :: "'n json \<Rightarrow> 'n json option" where
  "own_detail (JObj kvs) = map_of kvs ''detail''"
| "own_detail JNull = None"
| "own_detail (JBool b) = None"
| "own_detail (JNum n) = None"
| "own_detail (JStr s) = None"
| "own_detail (JArr xs) = None"

definition read_detail :: "'n platform \<Rightarrow> 'n json \<Rightarrow> js_error + 'n json option" where
  "read_detail P errorData =
     (if errorData = JNull then Inl (ErrorObject (null_property_message P))
      else Inr (own_detail errorData))"

text \<open>\<^verbatim>\<open>a || b\<close> where \<open>a\<close> may be \<^verbatim>\<open>undefined\<close>.\<close>

definition logical_or :: "'n platform \<Rightarrow> 'n json option \<Rightarrow> 'n json \<Rightarrow> 'n json" where
  "logical_or P a b = (case a of None \<Rightarrow> b | Some v \<Rightarrow> if ToBoolean P v then v else b)"

subsection \<open>The module\<close>

text \<open>\<^verbatim>\<open>const API_BASE_URL = process.env.NEXT_PUBLIC_API_URL || "http://localhost:8000"\<close>\<close>

definition API_BASE_URL :: "'n platform \<Rightarrow> string" where
  "API_BASE_URL P =
     (case NEXT_PUBLIC_API_URL P of
        None \<Rightarrow> ''http://localhost:8000''
      | Some u \<Rightarrow> if u = [] then ''http://localhost:8000'' else u)"

text \<open>
  \<^verbatim>\<open>new ApiError(message, status, data)\<close>: \<^verbatim>\<open>super(message)\<close> converts the message to a
  string, which can throw.
\<close>

definition new_ApiError ::
  "'n platform \<Rightarrow> 'n json \<Rightarrow> nat \<Rightarrow> 'n json option \<Rightarrow> js_error + 'n ApiError" where
  "new_ApiError P msg st d =
     (case ToString P msg of Inl e \<Rightarrow> Inl e | Inr s \<Rightarrow> Inr (ApiError s st d))"

text \<open>\<^verbatim>\<open>throw new ApiError(...)\<close>: the new error, or what its construction threw.\<close>

definition throw_new_ApiError ::
  "'n platform \<Rightarrow> 'n json \<Rightarrow> nat \<Rightarrow> 'n json option \<Rightarrow> 'n thrown" where
  "throw_new_ApiError P msg st d =
     (case new_ApiError P msg st d of Inl e \<Rightarrow> ThrownOther e | Inr a \<Rightarrow> ThrownApiError a)"

definition defaultHeaders :: "string \<rightharpoonup> header_value" where
  "defaultHeaders = [''Content-Type'' \<mapsto> HString ''application/json'']"

text \<open>
  The own enumerable properties that \<^verbatim>\<open>...options.headers\<close> copies: none of
  \<^verbatim>\<open>undefined\<close>, none of a \<^verbatim>\<open>Headers\<close> instance (its entries are internal), the index
  keys of an array, the entries of a plain record.
\<close>

fun spread_headers :: "HeadersInit option \<Rightarrow> (string \<rightharpoonup> header_value)" where
  "spread_headers None = Map.empty"
| "spread_headers (Some (HeadersInstance hs)) = Map.empty"
| "spread_headers (Some (HeadersPairs ps)) =
     map_of (zip (map decimal [0..<length ps]) (map (\<lambda>(name, v). HArray [name, v]) ps))"
| "spread_headers (Some (HeadersRecord m)) = m"

text \<open>
  \<^verbatim>\<open>const config = { ...options, headers: { ...defaultHeaders, ...options.headers } }\<close>:
  a later spread overwrites an earlier property of the same (exact) key.
\<close>

definition config :: "RequestInit \<Rightarrow> RequestInit" where
  "config options =
     options\<lparr>headers := Some (HeadersRecord (defaultHeaders ++ spread_headers (headers options)))\<rparr>"

text \<open>The body of the \<^verbatim>\<open>try\<close> block, from the settled \<^verbatim>\<open>fetch\<close> on.\<close>

definition try_block :: "'n platform \<Rightarrow> 'n fetch_result \<Rightarrow> 'n thrown + 'n json" where
  "try_block P fetched =
     (case fetched of
        Rejected e \<Rightarrow> Inl (ThrownOther e)
      | Fulfilled response \<Rightarrow>
          if \<not> ok response then
            (let errorData = (case json response of Inl e \<Rightarrow> JObj [] | Inr v \<Rightarrow> v) in
             case read_detail P errorData of
               Inl e \<Rightarrow> Inl (ThrownOther e)
             | Inr detail \<Rightarrow>
                 Inl (throw_new_ApiError P
                        (logical_or P detail
                           (JStr (''API error: '' @ decimal (Response.status response))))
                        (Response.status response)
                        (Some errorData)))
          else if Response.status response = 204 then Inr (JObj [])
          else (case json response of Inl e \<Rightarrow> Inl (ThrownOther e) | Inr v \<Rightarrow> Inr v))"

text \<open>The \<^verbatim>\<open>catch (error)\<close> block: what it throws for the value it caught.\<close>

definition catch_block :: "'n platform \<Rightarrow> 'n thrown \<Rightarrow> 'n thrown" where
  "catch_block P error =
     (case error of
        ThrownApiError a \<Rightarrow> ThrownApiError a
      | ThrownOther e \<Rightarrow>
          throw_new_ApiError P
            (case e of ErrorObject m \<Rightarrow> JStr m | NonError \<Rightarrow> JStr ''Unknown error occurred'')
            0 None)"

text \<open>
  One run of \<^verbatim>\<open>apiRequest\<close>: the URL and the \<^verbatim>\<open>RequestInit\<close> it handed to \<^verbatim>\<open>fetch\<close>, and
  how its promise settled (\<open>Inr\<close> the value it resolved to, \<open>Inl\<close> what it rejected with).
\<close>

record 'n run =
  request :: "string \<times> RequestInit"
  settled :: "'n thrown + 'n json"

definition apiRequest :: "'n platform \<Rightarrow> string \<Rightarrow> RequestInit \<Rightarrow> 'n run" where
  "apiRequest P endpoint options =
     (let url = API_BASE_URL P @ endpoint;
          cfg = config options
      in \<lparr>request = (url, cfg),
          settled = (case try_block P (fetch P url cfg) of
                       Inl error \<Rightarrow> Inl (catch_block P error)
                     | Inr v \<Rightarrow> Inr v)\<rparr>)"

text \<open>\<^verbatim>\<open>{ ...options }\<close> for the optional parameter of a wrapper.\<close>

definition spread_options :: "RequestInit option \<Rightarrow> RequestInit" where
  "spread_options options =
     (case options of None \<Rightarrow> \<lparr>method = None, headers = None, body = None\<rparr> | Some r \<Rightarrow> r)"

text \<open>
  \<^verbatim>\<open>data ? JSON.stringify(data) : undefined\<close>, for data that is a JSON value; \<open>None\<close> is
  an omitted (or \<^verbatim>\<open>undefined\<close>) argument.
\<close>

definition serialized :: "'n platform \<Rightarrow> 'n json option \<Rightarrow> string option" where
  "serialized P data' =
     (case data' of
        None \<Rightarrow> None
      | Some d \<Rightarrow> if ToBoolean P d then Some (JSON_stringify P d) else None)"

definition get :: "'n platform \<Rightarrow> string \<Rightarrow> RequestInit option \<Rightarrow> 'n run" where
  "get P endpoint options = apiRequest P endpoint ((spread_options options)\<lparr>method := Some ''GET''\<rparr>)"

definition post :: "'n platform \<Rightarrow> string \<Rightarrow> 'n json option \<Rightarrow> RequestInit option \<Rightarrow> 'n run" where
  "post P endpoint data' options =
     apiRequest P endpoint
       ((spread_options options)\<lparr>method := Some ''POST'', body := serialized P data'\<rparr>)"

definition put :: "'n platform \<Rightarrow> string \<Rightarrow> 'n json option \<Rightarrow> RequestInit option \<Rightarrow> 'n run" where
  "put P endpoint data' options =
     apiRequest P endpoint
       ((spread_options options)\<lparr>method := Some ''PUT'', body := serialized P data'\<rparr>)"

definition patch :: "'n platform \<Rightarrow> string \<Rightarrow> 'n json option \<Rightarrow> RequestInit option \<Rightarrow> 'n run" where
  "patch P endpoint data' options =
     apiRequest P endpoint
       ((spread_options options)\<lparr>method := Some ''PATCH'', body := serialized P data'\<rparr>)"

definition del :: "'n platform \<Rightarrow> string \<Rightarrow> RequestInit option \<Rightarrow> 'n run" where
  "del P endpoint options =
     apiRequest P endpoint ((spread_options options)\<lparr>method := Some ''DELETE''\<rparr>)"

subsection \<open>A concrete platform\<close>

text \<open>
  Numbers are integers here, the error wording is V8's, and \<^verbatim>\<open>JSON.stringify\<close> is
  written out for the values the examples send.
\<close>

definition show_int :: "int \<Rightarrow> string" where
  "show_int i = (if i < 0 then ''-'' @ decimal (nat (- i)) else decimal (nat i))"

fun quoted :: "string \<Rightarrow> string" where
  "quoted s = [CHR 0x22] @ s @ [CHR 0x22]"

fun stringify :: "int json \<Rightarrow> string" where
  "stringify JNull = ''null''"
| "stringify (JBool b) = (if b then ''true'' else ''false'')"
| "stringify (JNum n) = show_int n"
| "stringify (JStr s) = quoted s"
| "stringify (JArr xs) = ''['' @ join (map stringify xs) @ '']''"
| "stringify (JObj kvs) =
     ''{'' @ join (map (\<lambda>(k, v). quoted k @ '':'' @ stringify v) kvs) @ ''}''"

definition engine :: "(string \<Rightarrow> RequestInit \<Rightarrow> int fetch_result) \<Rightarrow> int platform" where
  "engine f =
     \<lparr>NEXT_PUBLIC_API_URL = None,
      number_is_falsy = (\<lambda>n. n = 0),
      number_to_string = show_int,
      JSON_stringify = stringify,
      null_property_message = ''Cannot read properties of null (reading 'detail')'',
      to_primitive_message = ''Cannot convert object to primitive value'',
      fetch = f\<rparr>"

text \<open>A server that answers every request with the same response, and a dead network.\<close>

definition answers :: "nat \<Rightarrow> js_error + int json \<Rightarrow> int platform" where
  "answers st b = engine (\<lambda>url init. Fulfilled (Response st b))"

definition unreachable :: "js_error \<Rightarrow> int platform" where
  "unreachable e = engine (\<lambda>url init. Rejected e)"

subsection \<open>Observing a run\<close>

text \<open>The headers object of the \<^verbatim>\<open>RequestInit\<close> that reached \<^verbatim>\<open>fetch\<close>.\<close>

definition sent_headers :: "'n run \<Rightarrow> (string \<rightharpoonup> header_value)" where
  "sent_headers r =
     (case headers (snd (request r)) of Some (HeadersRecord h) \<Rightarrow> h | _ \<Rightarrow> Map.empty)"

text \<open>
  Header names as HTTP compares them: equal up to the case of ASCII letters. The
  module itself never compares names this way; the notion is needed to say so.
\<close>

fun ascii_lower :: "char \<Rightarrow> char" where
  "ascii_lower c =
     (case map_of (zip ''ABCDEFGHIJKLMNOPQRSTUVWXYZ'' ''abcdefghijklmnopqrstuvwxyz'') c of
        None \<Rightarrow> c
      | Some l \<Rightarrow> l)"

definition same_header_name :: "string \<Rightarrow> string \<Rightarrow> bool" where
  "same_header_name a b = (map ascii_lower a = map ascii_lower b)"

text \<open>Values of the examples.\<close>

definition healthy :: "int json" where
  "healthy = JObj [(''status'', JStr ''healthy'')]"

definition not_found :: "int json" where
  "not_found = JObj [(''detail'', JStr ''Not found'')]"

definition empty_detail :: "int json" where
  "empty_detail = JObj [(''detail'', JStr [])]"

definition new_user :: "int json" where
  "new_user = JObj [(''name'', JStr ''A''), (''email'', JStr ''a@x.com'')]"

definition put_options :: RequestInit where
  "put_options = \<lparr>method = Some ''PUT'', headers = None, body = Some ''stale''\<rparr>"

definition exact_key_options :: RequestInit where
  "exact_key_options =
     \<lparr>method = None,
      headers = Some (HeadersRecord [''Content-Type'' \<mapsto> HString ''text/plain'']),
      body = None\<rparr>"

definition plain_text_options :: RequestInit where
  "plain_text_options =
     \<lparr>method = None,
      headers = Some (HeadersRecord [''content-type'' \<mapsto> HString ''text/plain'']),
      body = None\<rparr>"

section \<open>Properties\<close>

subsection \<open>Unfolding a run\<close>

lemma settled_apiRequest:
  "settled (apiRequest P endpoint options) =
     (case try_block P (fetch P (API_BASE_URL P @ endpoint) (config options)) of
        Inl error \<Rightarrow> Inl (catch_block P error)
      | Inr v \<Rightarrow> Inr v)"
  by (simp add: apiRequest_def Let_def)

lemma request_apiRequest:
  "request (apiRequest P endpoint options) = (API_BASE_URL P @ endpoint, config options)"
  by (simp add: apiRequest_def Let_def)

lemma method_config [simp]: "method (config options) = method options"
  by (simp add: config_def)

lemma body_config [simp]: "body (config options) = body options"
  by (simp add: config_def)

lemma sent_headers_apiRequest:
  "sent_headers (apiRequest P endpoint options) = defaultHeaders ++ spread_headers (headers options)"
  by (simp add: sent_headers_def request_apiRequest config_def)

text \<open>
  The handler rethrows an \<^verbatim>\<open>ApiError\<close> as it is and wraps every other value in a new
  \<^verbatim>\<open>ApiError\<close> of status 0 without data.
\<close>

lemma catch_block_ApiError: "catch_block P (ThrownApiError a) = ThrownApiError a"
  by (simp add: catch_block_def)

lemma catch_block_foreign:
  "catch_block P (ThrownOther e) =
     ThrownApiError
       (ApiError (case e of ErrorObject m \<Rightarrow> m | NonError \<Rightarrow> ''Unknown error occurred'') 0 None)"
  by (cases e) (simp_all add: catch_block_def throw_new_ApiError_def new_ApiError_def)



subsection \<open>Successful responses\<close>

text \<open>
  Claim C1. When the response has a status in [200,299] other than 204 and its body
  decodes as the JSON value \<open>v\<close>, the call resolves to exactly \<open>v\<close>.
\<close>

theorem success_returns_decoded_body:
  assumes "fetch P (API_BASE_URL P @ endpoint) (config options) = Fulfilled response"
    and "200 \<le> Response.status response" and "Response.status response \<le> 299"
    and "Response.status response \<noteq> 204"
    and "json response = Inr v"
  shows "settled (apiRequest P endpoint options) = Inr v"
  using assms by (simp add: settled_apiRequest try_block_def ok_def)

theorem success_returns_decoded_body_witness:
  "settled (get (answers 200 (Inr healthy)) ''/health'' None) = Inr healthy"
  using success_returns_decoded_body
    [of "answers 200 (Inr healthy)" "''/health''"
        "(spread_options None)\<lparr>method := Some ''GET''\<rparr>"
        "Response 200 (Inr healthy)" healthy]
  by (simp add: get_def answers_def engine_def)

text \<open>
  Claim C5. When the response status is 204, the call resolves to the empty object
  whatever \<^verbatim>\<open>response.json()\<close> would have settled with: the body is never read.
\<close>

theorem no_content_resolves_empty:
  assumes "fetch P (API_BASE_URL P @ endpoint) (config options) = Fulfilled (Response 204 received)"
  shows "settled (apiRequest P endpoint options) = Inr (JObj [])"
  using assms by (simp add: settled_apiRequest try_block_def ok_def)

theorem no_content_resolves_empty_witness:
  "settled (del (answers 204 (Inl (ErrorObject ''Unexpected end of JSON input''))) ''/items/5'' None)
     = Inr (JObj [])
   \<and> settled (del (answers 204 (Inr (JStr ''ignored''))) ''/items/5'' None) = Inr (JObj [])"
  using no_content_resolves_empty
    [of "answers 204 (Inl (ErrorObject ''Unexpected end of JSON input''))" "''/items/5''"
        "(spread_options None)\<lparr>method := Some ''DELETE''\<rparr>"
        "Inl (ErrorObject ''Unexpected end of JSON input'')"]
    no_content_resolves_empty
    [of "answers 204 (Inr (JStr ''ignored''))" "''/items/5''"
        "(spread_options None)\<lparr>method := Some ''DELETE''\<rparr>"
        "Inr (JStr ''ignored'')"]
  by (simp add: del_def answers_def engine_def)

subsection \<open>Failures without a usable response\<close>

text \<open>
  Claim C3. When \<^verbatim>\<open>fetch\<close> rejects before any response arrives, the call rejects with
  an \<^verbatim>\<open>ApiError\<close> of status 0, whose message is the message of the transport error
  (or \<^verbatim>\<open>"Unknown error occurred"\<close> when the rejection is no \<^verbatim>\<open>Error\<close>), and without data.
\<close>

theorem transport_failure:
  assumes "fetch P (API_BASE_URL P @ endpoint) (config options) = Rejected e"
  shows "settled (apiRequest P endpoint options) =
    Inl (ThrownApiError
      (ApiError (case e of ErrorObject m \<Rightarrow> m | NonError \<Rightarrow> ''Unknown error occurred'') 0 None))"
  using assms by (simp add: settled_apiRequest try_block_def catch_block_foreign)

theorem transport_failure_witness:
  "settled (get (unreachable (ErrorObject ''Failed to fetch'')) ''/health'' None) =
     Inl (ThrownApiError (ApiError ''Failed to fetch'' 0 None))
   \<and> settled (get (unreachable NonError) ''/health'' None) =
     Inl (ThrownApiError (ApiError ''Unknown error occurred'' 0 None))"
  using transport_failure
    [of "unreachable (ErrorObject ''Failed to fetch'')" "''/health''"
        "(spread_options None)\<lparr>method := Some ''GET''\<rparr>" "ErrorObject ''Failed to fetch''"]
    transport_failure
    [of "unreachable NonError" "''/health''"
        "(spread_options None)\<lparr>method := Some ''GET''\<rparr>" NonError]
  by (simp add: get_def unreachable_def engine_def)

text \<open>
  Claim C4. When a response with a status in [200,299] other than 204 has a body that
  does not decode, so that \<^verbatim>\<open>response.json()\<close> rejects with \<open>e\<close>, the call rejects with
  an \<^verbatim>\<open>ApiError\<close> of status 0 without data: the very error it rejects with when
  \<^verbatim>\<open>fetch\<close> itself rejects with \<open>e\<close>.
\<close>

theorem decode_failure_like_transport_failure:
  assumes "fetch P (API_BASE_URL P @ endpoint) (config options) = Fulfilled response"
    and "200 \<le> Response.status response" and "Response.status response \<le> 299"
    and "Response.status response \<noteq> 204"
    and "json response = Inl e"
  shows "settled (apiRequest P endpoint options) =
      Inl (ThrownApiError
        (ApiError (case e of ErrorObject m \<Rightarrow> m | NonError \<Rightarrow> ''Unknown error occurred'') 0 None))
    \<and> settled (apiRequest P endpoint options) =
      settled (apiRequest (P\<lparr>fetch := \<lambda>url init. Rejected e\<rparr>) endpoint options)"
  using assms
  by (simp add: settled_apiRequest try_block_def ok_def catch_block_foreign API_BASE_URL_def)

theorem decode_failure_like_transport_failure_witness:
  "settled (get (answers 200 (Inl (ErrorObject ''Unexpected end of JSON input''))) ''/health'' None) =
     Inl (ThrownApiError (ApiError ''Unexpected end of JSON input'' 0 None))
   \<and> settled (get (answers 200 (Inl (ErrorObject ''Unexpected end of JSON input''))) ''/health'' None) =
     settled (get (unreachable (ErrorObject ''Unexpected end of JSON input'')) ''/health'' None)"
  using decode_failure_like_transport_failure
    [of "answers 200 (Inl (ErrorObject ''Unexpected end of JSON input''))" "''/health''"
        "(spread_options None)\<lparr>method := Some ''GET''\<rparr>"
        "Response 200 (Inl (ErrorObject ''Unexpected end of JSON input''))"
        "ErrorObject ''Unexpected end of JSON input''"]
  by (simp add: get_def answers_def unreachable_def engine_def settled_apiRequest try_block_def
      catch_block_foreign)

subsection \<open>The outgoing request\<close>

text \<open>
  Claim C9. Each wrapper sends its own method, whatever the caller's options hold,
  a \<^verbatim>\<open>method\<close> of their own included.
\<close>

theorem wrapper_method_wins:
  "method (snd (request (get P endpoint options))) = Some ''GET''
   \<and> method (snd (request (post P endpoint data' options))) = Some ''POST''
   \<and> method (snd (request (put P endpoint data' options))) = Some ''PUT''
   \<and> method (snd (request (patch P endpoint data' options))) = Some ''PATCH''
   \<and> method (snd (request (del P endpoint options))) = Some ''DELETE''"
  by (simp add: get_def post_def put_def patch_def del_def request_apiRequest)

theorem wrapper_method_wins_witness:
  "method put_options = Some ''PUT''
   \<and> method (snd (request (get (answers 200 (Inr healthy)) ''/health'' (Some put_options))))
       = Some ''GET''
   \<and> method (snd (request (del (answers 204 (Inr JNull)) ''/items/5'' (Some put_options))))
       = Some ''DELETE''"
  using wrapper_method_wins
    [of "answers 200 (Inr healthy)" "''/health''" "Some put_options"]
    wrapper_method_wins
    [of "answers 204 (Inr JNull)" "''/items/5''" "Some put_options"]
  by (simp add: put_options_def)

text \<open>
  Claim C6 as stated fails: \<^verbatim>\<open>post("/flags", false)\<close> provides data, and the request
  carries no body, where the claim promises the serialization \<^verbatim>\<open>false\<close>.
\<close>

theorem falsy_data_counterexample:
  "body (snd (request (post (answers 201 (Inr JNull)) ''/flags'' (Some (JBool False)) None))) = None
   \<and> JSON_stringify (answers 201 (Inr JNull)) (JBool False) = ''false''"
  by (simp add: post_def request_apiRequest serialized_def answers_def engine_def)

text \<open>
  Claim C6, amended. \<^verbatim>\<open>post\<close>, \<^verbatim>\<open>put\<close> and \<^verbatim>\<open>patch\<close> send no body when the data argument
  is omitted or falsy (\<^verbatim>\<open>null\<close>, \<^verbatim>\<open>false\<close>, \<^verbatim>\<open>0\<close>, \<^verbatim>\<open>NaN\<close>, the empty string), and send
  exactly \<^verbatim>\<open>JSON.stringify(data)\<close> when it is truthy; a body among the caller's options
  is overwritten either way.
\<close>

theorem body_is_serialized_truthy_data:
  "body (snd (request (post P endpoint data' options))) =
      (case data' of
         None \<Rightarrow> None
       | Some d \<Rightarrow> if ToBoolean P d then Some (JSON_stringify P d) else None)
   \<and> body (snd (request (put P endpoint data' options))) =
      (case data' of
         None \<Rightarrow> None
       | Some d \<Rightarrow> if ToBoolean P d then Some (JSON_stringify P d) else None)
   \<and> body (snd (request (patch P endpoint data' options))) =
      (case data' of
         None \<Rightarrow> None
       | Some d \<Rightarrow> if ToBoolean P d then Some (JSON_stringify P d) else None)"
  by (simp add: post_def put_def patch_def request_apiRequest serialized_def)

theorem body_is_serialized_truthy_data_witness:
  "body (snd (request (post (answers 201 (Inr new_user)) ''/users'' (Some new_user) None))) =
     Some (''{'' @ quoted ''name'' @ '':'' @ quoted ''A'' @ '','' @
           quoted ''email'' @ '':'' @ quoted ''a@x.com'' @ ''}'')
   \<and> body (snd (request (put (answers 200 (Inr new_user)) ''/users/1'' None (Some put_options))))
       = None
   \<and> body (snd (request (patch (answers 200 (Inr new_user)) ''/users/1'' (Some (JStr [])) None)))
       = None"
  using body_is_serialized_truthy_data
    [of "answers 201 (Inr new_user)" "''/users''" "Some new_user" None]
    body_is_serialized_truthy_data
    [of "answers 200 (Inr new_user)" "''/users/1''" None "Some put_options"]
    body_is_serialized_truthy_data
    [of "answers 200 (Inr new_user)" "''/users/1''" "Some (JStr [])" None]
  by (simp add: answers_def engine_def new_user_def)

text \<open>
  Claim C7 as stated fails: a caller who overrides the content type under the name
  \<^verbatim>\<open>content-type\<close>, the same header name for HTTP, does not replace the default. Both
  properties reach \<^verbatim>\<open>fetch\<close>, the default under \<^verbatim>\<open>Content-Type\<close> with its own value.
\<close>

theorem header_case_counterexample:
  "same_header_name ''content-type'' ''Content-Type''
   \<and> sent_headers (get (answers 200 (Inr JNull)) ''/health'' (Some plain_text_options))
        ''content-type'' = Some (HString ''text/plain'')
   \<and> sent_headers (get (answers 200 (Inr JNull)) ''/health'' (Some plain_text_options))
        ''Content-Type'' = Some (HString ''application/json'')"
  by (simp add: same_header_name_def get_def sent_headers_apiRequest spread_options_def
      defaultHeaders_def plain_text_options_def)

text \<open>
  Claim C7, amended. When the caller's headers are a plain record (or absent), the
  headers handed to \<^verbatim>\<open>fetch\<close> are the default \<^verbatim>\<open>Content-Type: application/json\<close> overlaid
  with the caller's properties, keys compared exactly: a caller's property named exactly
  \<^verbatim>\<open>Content-Type\<close> replaces the default, every other caller's property is added beside it.
\<close>

theorem headers_exact_key_override:
  "sent_headers (apiRequest P endpoint (options\<lparr>headers := Some (HeadersRecord supplied)\<rparr>)) name =
     (case supplied name of
        Some v \<Rightarrow> Some v
      | None \<Rightarrow> if name = ''Content-Type'' then Some (HString ''application/json'') else None)
   \<and> sent_headers (apiRequest P endpoint (options\<lparr>headers := None\<rparr>)) name =
     (if name = ''Content-Type'' then Some (HString ''application/json'') else None)"
  by (simp add: sent_headers_apiRequest defaultHeaders_def map_add_def split: option.split)

theorem headers_exact_key_override_witness:
  "sent_headers (get (answers 200 (Inr healthy)) ''/health'' (Some exact_key_options))
      ''Content-Type'' = Some (HString ''text/plain'')
   \<and> sent_headers (get (answers 200 (Inr healthy)) ''/health'' None)
      ''Content-Type'' = Some (HString ''application/json'')"
  using headers_exact_key_override
    [where P = "answers 200 (Inr healthy)" and endpoint = "''/health''"
       and options = "exact_key_options\<lparr>method := Some ''GET''\<rparr>"
       and supplied = "[''Content-Type'' \<mapsto> HString ''text/plain'']"
       and name = "''Content-Type''"]
    headers_exact_key_override
    [where P = "answers 200 (Inr healthy)" and endpoint = "''/health''"
       and options = "(spread_options None)\<lparr>method := Some ''GET''\<rparr>"
       and supplied = "[''Content-Type'' \<mapsto> HString ''text/plain'']"
       and name = "''Content-Type''"]
  by (simp add: get_def spread_options_def exact_key_options_def)

subsection \<open>Responses that are not ok\<close>

text \<open>
  Claim C2 as stated fails: a 404 whose body is \<^verbatim>\<open>{"detail": ""}\<close> has a \<^verbatim>\<open>detail\<close> field,
  and the message is not its value (the empty string) but the fallback.
\<close>

theorem empty_detail_counterexample:
  "own_detail empty_detail = Some (JStr [])
   \<and> settled (get (answers 404 (Inr empty_detail)) ''/missing'' None) =
     Inl (ThrownApiError (ApiError ''API error: 404'' 404 (Some empty_detail)))"
  by (simp add: get_def answers_def engine_def settled_apiRequest try_block_def ok_def Let_def
      read_detail_def logical_or_def throw_new_ApiError_def new_ApiError_def catch_block_ApiError
      decimal.simps empty_detail_def)

text \<open>
  Claim C2, amended. Let the response have a status outside [200,299], and let
  \<open>errorData\<close> be its decoded body, or the empty object when the body does not decode.
  Suppose \<open>errorData\<close> is not \<^verbatim>\<open>null\<close>, and that \<^verbatim>\<open>errorData.detail\<close>, when it is present and
  truthy, converts to a string \<open>text\<close> (the conversion throws for an object with an own
  \<^verbatim>\<open>toString\<close> property, also as an element of an array). Then the call rejects with an
  \<^verbatim>\<open>ApiError\<close> whose status is the status of the response, whose data is \<open>errorData\<close>,
  and whose message is \<open>text\<close>; when \<^verbatim>\<open>errorData.detail\<close> is absent or falsy, the message
  is \<^verbatim>\<open>"API error: <status>"\<close>. Nothing is stated for the inputs excluded here.
\<close>

theorem non_ok_error_fields:
  assumes "fetch P (API_BASE_URL P @ endpoint) (config options) = Fulfilled response"
    and "Response.status response < 200 \<or> 299 < Response.status response"
    and "errorData = (case json response of Inl e \<Rightarrow> JObj [] | Inr v \<Rightarrow> v)"
    and "errorData \<noteq> JNull"
    and "case own_detail errorData of
           None \<Rightarrow> text = ''API error: '' @ decimal (Response.status response)
         | Some d \<Rightarrow>
             if ToBoolean P d then ToString P d = Inr text
             else text = ''API error: '' @ decimal (Response.status response)"
  shows "settled (apiRequest P endpoint options) =
    Inl (ThrownApiError (ApiError text (Response.status response) (Some errorData)))"
proof -
  have "\<not> ok response"
    using assms(2) by (auto simp add: ok_def)
  moreover have "ToString P (logical_or P (own_detail errorData)
      (JStr (''API error: '' @ decimal (Response.status response)))) = Inr text"
    using assms(5) by (simp add: logical_or_def split: option.splits if_splits)
  ultimately show ?thesis
    using assms(1,3,4)
    by (simp add: settled_apiRequest try_block_def Let_def read_detail_def
        throw_new_ApiError_def new_ApiError_def catch_block_ApiError)
qed

theorem non_ok_error_fields_witness:
  "settled (get (answers 404 (Inr not_found)) ''/missing'' None) =
     Inl (ThrownApiError (ApiError ''Not found'' 404 (Some not_found)))
   \<and> settled (get (answers 502 (Inl (ErrorObject ''Unexpected token''))) ''/missing'' None) =
     Inl (ThrownApiError (ApiError ''API error: 502'' 502 (Some (JObj []))))"
  using non_ok_error_fields
    [of "answers 404 (Inr not_found)" "''/missing''"
        "(spread_options None)\<lparr>method := Some ''GET''\<rparr>"
        "Response 404 (Inr not_found)" not_found "''Not found''"]
    non_ok_error_fields
    [of "answers 502 (Inl (ErrorObject ''Unexpected token''))" "''/missing''"
        "(spread_options None)\<lparr>method := Some ''GET''\<rparr>"
        "Response 502 (Inl (ErrorObject ''Unexpected token''))" "JObj []" "''API error: 502''"]
  by (simp add: get_def answers_def engine_def not_found_def decimal.simps)




text \<open>
  Claim C10 holds for an \<^verbatim>\<open>ApiError\<close> once thrown (\<open>catch_block_ApiError\<close>), yet a
  response that is not ok can lose its status before one is thrown: on a 500 whose body
  is the JSON value \<^verbatim>\<open>null\<close>, reading \<^verbatim>\<open>errorData.detail\<close> throws a \<^verbatim>\<open>TypeError\<close> inside
  the \<^verbatim>\<open>try\<close> block, and the handler reports it with status 0.
\<close>

theorem null_error_body_loses_status:
  "settled (get (answers 500 (Inr JNull)) ''/items'' None) =
     Inl (ThrownApiError (ApiError ''Cannot read properties of null (reading 'detail')'' 0 None))"
  by (simp add: get_def answers_def engine_def settled_apiRequest try_block_def ok_def Let_def
      read_detail_def catch_block_foreign)

end
